theory Spec2Isabelle
  imports Main "HOL-Library.AList"
begin

section \<open>Python values: errors, strings, integers\<close>

text \<open>
  The index codec of \<^verbatim>\<open>TotalDepth/RP66V1/IndexXML.py\<close> (and its older sibling
  \<^verbatim>\<open>core/LogPassXML.py\<close>) is embedded as pure functions. Every \<^verbatim>\<open>raise\<close> of the source,
  and every exception of a builtin the source calls (a missing dict key, \<^verbatim>\<open>int()\<close> of a
  malformed literal, an out-of-range index, an ASCII codec failure), is a value \<open>Inl e\<close>
  of the result type \<open>error + 'a\<close>. The message carried by the repository's own exceptions
  is the source's f-string with its placeholders left in place.
\<close>

datatype error =
    KeyError string
  | ValueError
  | IndexError
  | TypeError
  | AttributeError
  | AssertionError
  | UnicodeEncodeError
  | UnicodeDecodeError
  | OSError
  | ExceptionIndexXMLRead string
  | ExceptionRP66V1IndexXMLRead string
  | ExceptionFrameArrayInit string
  | ExceptionLogPassXML string

fun err_bind :: "error + 'a \<Rightarrow> ('a \<Rightarrow> error + 'b) \<Rightarrow> error + 'b" where
  "err_bind (Inl e) f = Inl e"
| "err_bind (Inr x) f = f x"

fun err_map :: "('a \<Rightarrow> error + 'b) \<Rightarrow> 'a list \<Rightarrow> error + 'b list" where
  "err_map f [] = Inr []"
| "err_map f (x # xs) =
     err_bind (f x) (\<lambda>y. err_bind (err_map f xs) (\<lambda>ys. Inr (y # ys)))"

text \<open>
  A Python \<^verbatim>\<open>str\<close> and a Python \<^verbatim>\<open>bytes\<close> are both lists of \<^typ>\<open>char\<close> (code points,
  respectively bytes, 0 to 255). \<^verbatim>\<open>int(s)\<close> and \<^verbatim>\<open>int(s, 16)\<close> follow CPython's
  \<^verbatim>\<open>PyLong_FromString\<close>: surrounding white space, one optional sign, for base 16 an
  optional \<^verbatim>\<open>0x\<close>/\<^verbatim>\<open>0X\<close> prefix (one underscore may follow it), then digits with
  single underscores between them, then white space to the end.
\<close>

definition py_isspace :: "char \<Rightarrow> bool" where
  "py_isspace c = (of_char c \<in> {9::nat, 10, 11, 12, 13, 32, 133, 160})"

definition digit_value :: "char \<Rightarrow> nat option" where
  "digit_value c =
     (let n = (of_char c :: nat) in
      if 48 \<le> n \<and> n \<le> 57 then Some (n - 48)
      else if 97 \<le> n \<and> n \<le> 122 then Some (n - 87)
      else if 65 \<le> n \<and> n \<le> 90 then Some (n - 55)
      else None)"

definition digit_in_base :: "nat \<Rightarrow> char \<Rightarrow> nat option" where
  "digit_in_base b c =
     (case digit_value c of
        None \<Rightarrow> None
      | Some d \<Rightarrow> if d < b then Some d else None)"

fun scan_digits :: "nat \<Rightarrow> nat \<Rightarrow> bool \<Rightarrow> string \<Rightarrow> (nat \<times> string) option" where
  "scan_digits b acc prev [] = (if prev then None else Some (acc, []))"
| "scan_digits b acc prev (c # cs) =
     (if c = CHR ''_'' then (if prev then None else scan_digits b acc True cs)
      else case digit_in_base b c of
             Some d \<Rightarrow> scan_digits b (acc * b + d) False cs
           | None \<Rightarrow> if prev then None else Some (acc, c # cs))"

definition split_sign :: "string \<Rightarrow> bool \<times> string" where
  "split_sign s =
     (case s of
        c # r \<Rightarrow> if c = CHR ''-'' then (True, r) else if c = CHR ''+'' then (False, r) else (False, s)
      | [] \<Rightarrow> (False, s))"

definition skip_base_prefix :: "nat \<Rightarrow> string \<Rightarrow> string" where
  "skip_base_prefix b s =
     (if b = 16 \<and> (take 2 s = ''0x'' \<or> take 2 s = ''0X'')
      then (case drop 2 s of
              c # r \<Rightarrow> if c = CHR ''_'' then r else c # r
            | [] \<Rightarrow> [])
      else s)"

definition parse_digits :: "nat \<Rightarrow> string \<Rightarrow> nat option" where
  "parse_digits b s =
     (case s of
        [] \<Rightarrow> None
      | c # _ \<Rightarrow>
          if digit_in_base b c = None then None
          else (case scan_digits b 0 False s of
                  None \<Rightarrow> None
                | Some (n, rest) \<Rightarrow> if list_all py_isspace rest then Some n else None))"

definition py_int_base :: "nat \<Rightarrow> string \<Rightarrow> int option" where
  "py_int_base b s =
     (case split_sign (dropWhile py_isspace s) of
        (neg, s2) \<Rightarrow>
          (case parse_digits b (skip_base_prefix b s2) of
             None \<Rightarrow> None
           | Some n \<Rightarrow> Some (if neg then - int n else int n)))"

definition py_int :: "string \<Rightarrow> error + int" where
  "py_int s = (case py_int_base 10 s of None \<Rightarrow> Inl ValueError | Some n \<Rightarrow> Inr n)"

definition py_int16 :: "string \<Rightarrow> error + int" where
  "py_int16 s = (case py_int_base 16 s of None \<Rightarrow> Inl ValueError | Some n \<Rightarrow> Inr n)"

definition startswith :: "string \<Rightarrow> string \<Rightarrow> bool" where
  "startswith s p = (take (length p) s = p)"

text \<open>
  Formatting: \<^verbatim>\<open>f'{n}'\<close> and \<^verbatim>\<open>f'{n:d}'\<close> of an integer give its decimal digits,
  \<^verbatim>\<open>f'{n:x}'\<close> its lower-case hexadecimal digits, both with a leading minus sign for a
  negative number.
\<close>

definition digit_char :: "nat \<Rightarrow> char" where
  "digit_char d = ''0123456789abcdef'' ! d"

function nat_str :: "nat \<Rightarrow> nat \<Rightarrow> string" where
  "nat_str b n =
     (if n < b \<or> b < 2 then [digit_char n]
      else nat_str b (n div b) @ [digit_char (n mod b)])"
  by pat_completeness auto
termination
  by (relation "measure (\<lambda>(b, n). n)") auto

declare nat_str.simps [simp del]

definition py_str_int :: "int \<Rightarrow> string" where
  "py_str_int n = (if n < 0 then CHR ''-'' # nat_str 10 (nat (- n)) else nat_str 10 (nat n))"

definition py_hex_int :: "int \<Rightarrow> string" where
  "py_hex_int n = (if n < 0 then CHR ''-'' # nat_str 16 (nat (- n)) else nat_str 16 (nat n))"

definition is_ascii :: "string \<Rightarrow> bool" where
  "is_ascii s = list_all (\<lambda>c. (of_char c :: nat) < 128) s"

definition encode_ascii :: "string \<Rightarrow> error + string" where
  "encode_ascii s = (if is_ascii s then Inr s else Inl UnicodeEncodeError)"

definition decode_ascii :: "string \<Rightarrow> error + string" where
  "decode_ascii b = (if is_ascii b then Inr b else Inl UnicodeDecodeError)"

text \<open>\<^verbatim>\<open>s.split(',')\<close> and \<^verbatim>\<open>','.join(xs)\<close>.\<close>

fun split_comma :: "string \<Rightarrow> string list" where
  "split_comma [] = [[]]"
| "split_comma (c # cs) =
     (if c = CHR '','' then [] # split_comma cs
      else (case split_comma cs of
              w # ws \<Rightarrow> (c # w) # ws
            | [] \<Rightarrow> [[c]]))"

fun join_comma :: "string list \<Rightarrow> string" where
  "join_comma [] = []"
| "join_comma [w] = w"
| "join_comma (w # v # ws) = w @ CHR '','' # join_comma (v # ws)"

text \<open>
  Numbers are Python's \<^verbatim>\<open>int\<close> or \<^verbatim>\<open>float\<close>. Floating point is not interpreted: a
  float is a value of an abstract type \<open>'f\<close>, and the operations of the interpreter on
  floats are the fields of a record every function takes as its first argument.
  Arithmetic and comparison of two integers are exact; as soon as one operand is a float
  the operation is the record's.
\<close>

datatype 'f pynum = PyInt int | PyFloat 'f

record 'f float_ops =
  float_of_str :: "string \<Rightarrow> 'f option"
  float_str :: "'f \<Rightarrow> string"
  float_add :: "'f pynum \<Rightarrow> 'f pynum \<Rightarrow> 'f"
  float_sub :: "'f pynum \<Rightarrow> 'f pynum \<Rightarrow> 'f"
  float_eq :: "'f pynum \<Rightarrow> 'f pynum \<Rightarrow> bool"

fun py_add :: "'f float_ops \<Rightarrow> 'f pynum \<Rightarrow> 'f pynum \<Rightarrow> 'f pynum" where
  "py_add fo (PyInt a) (PyInt b) = PyInt (a + b)"
| "py_add fo x y = PyFloat (float_add fo x y)"

fun py_sub :: "'f float_ops \<Rightarrow> 'f pynum \<Rightarrow> 'f pynum \<Rightarrow> 'f pynum" where
  "py_sub fo (PyInt a) (PyInt b) = PyInt (a - b)"
| "py_sub fo x y = PyFloat (float_sub fo x y)"

fun py_eq :: "'f float_ops \<Rightarrow> 'f pynum \<Rightarrow> 'f pynum \<Rightarrow> bool" where
  "py_eq fo (PyInt a) (PyInt b) = (a = b)"
| "py_eq fo x y = float_eq fo x y"

text \<open>\<^verbatim>\<open>f'{v}'\<close>, \<^verbatim>\<open>f'{v:d}'\<close> and \<^verbatim>\<open>f'0x{v:x}'\<close>; the last two raise for a float.\<close>

fun format_plain :: "'f float_ops \<Rightarrow> 'f pynum \<Rightarrow> string" where
  "format_plain fo (PyInt n) = py_str_int n"
| "format_plain fo (PyFloat x) = float_str fo x"

fun format_d :: "'f pynum \<Rightarrow> error + string" where
  "format_d (PyInt n) = Inr (py_str_int n)"
| "format_d (PyFloat x) = Inl ValueError"

fun format_0x :: "'f pynum \<Rightarrow> error + string" where
  "format_0x (PyInt n) = Inr (''0x'' @ py_hex_int n)"
| "format_0x (PyFloat x) = Inl ValueError"

text \<open>The operations with which no text is a float: for inputs that are integers only.\<close>

definition no_float_ops :: "unit float_ops" where
  "no_float_ops =
     \<lparr> float_of_str = (\<lambda>s. None), float_str = (\<lambda>x. ''nan''),
       float_add = (\<lambda>x y. ()), float_sub = (\<lambda>x y. ()), float_eq = (\<lambda>x y. False) \<rparr>"

section \<open>XML element trees\<close>

text \<open>
  An \<^verbatim>\<open>xml.etree\<close> element: its tag, its attribute dictionary and its child elements in
  document order. The writer (\<^verbatim>\<open>XmlWrite.XmlStream\<close>, \<^verbatim>\<open>XmlWrite.Element\<close>) is
  represented by the tree that parsing its output gives back: an element written with a
  dictionary of attributes, enclosing the elements written inside its \<^verbatim>\<open>with\<close> block.
  An XPath \<^verbatim>\<open>./A/B\<close> is the list of its tags.
\<close>

datatype Element = Element (tag: string) (attrib: "(string \<times> string) list") (children: "Element list")

definition attr :: "Element \<Rightarrow> string \<Rightarrow> error + string" where
  "attr e k = (case map_of (attrib e) k of None \<Rightarrow> Inl (KeyError k) | Some v \<Rightarrow> Inr v)"

definition set_attr :: "Element \<Rightarrow> string \<Rightarrow> string \<Rightarrow> Element" where
  "set_attr e k v = Element (tag e) (AList.update k v (attrib e)) (children e)"

fun iterfind :: "Element \<Rightarrow> string list \<Rightarrow> Element list" where
  "iterfind e [] = [e]"
| "iterfind e (t # ts) =
     concat (map (\<lambda>c. iterfind c ts) (filter (\<lambda>c. tag c = t) (children e)))"

definition xml_single_element :: "Element \<Rightarrow> string list \<Rightarrow> error + Element" where
  "xml_single_element element xpath =
     (case iterfind element xpath of
        [e] \<Rightarrow> Inr e
      | _ \<Rightarrow> Inl (ExceptionIndexXMLRead ''Expected single element at Xpath {xpath} but found {len(elems)}''))"

definition xml_integer_attribute_read :: "Element \<Rightarrow> string \<Rightarrow> error + int" where
  "xml_integer_attribute_read element a =
     err_bind (attr element a)
       (\<lambda>attribute. if startswith attribute ''0x'' then py_int16 attribute else py_int attribute)"

section \<open>Run-length encoding\<close>

text \<open>
  Modelled from the spec: \<^verbatim>\<open>TotalDepth.common.Rle\<close> (\<^verbatim>\<open>RLEItem\<close>, \<^verbatim>\<open>RLE\<close>, \<^verbatim>\<open>create_rle\<close>)
  is not among the source files. An item \<open>{datum, stride, repeat}\<close> stands for
  \<open>repeat + 1\<close> values that start at \<open>datum\<close> and grow by \<open>stride\<close> each step;
  \<^verbatim>\<open>num_values()\<close> is the sum of \<open>repeat + 1\<close> over the items and \<^verbatim>\<open>len()\<close> the number of
  items. The codec assigns \<^verbatim>\<open>repeat\<close> whatever number the attribute text denotes, so
  the field is a \<^typ>\<open>'f pynum\<close>; the expansion counts with \<^verbatim>\<open>range\<close>, which is empty for a
  negative count and raises \<^verbatim>\<open>TypeError\<close> for a float.
  A generator is the list of values it yields, with the exception that ends it, if any.
\<close>

record 'f RLEItem =
  datum :: "'f pynum"
  stride :: "'f pynum"
  repeat :: "'f pynum"

type_synonym 'f RLE = "'f RLEItem list"

type_synonym 'a gen = "'a list \<times> error option"

definition list_of_gen :: "'a gen \<Rightarrow> error + 'a list" where
  "list_of_gen g = (case snd g of None \<Rightarrow> Inr (fst g) | Some e \<Rightarrow> Inl e)"

definition num_values :: "'f float_ops \<Rightarrow> 'f RLE \<Rightarrow> 'f pynum" where
  "num_values fo rle =
     foldl (\<lambda>s item. py_add fo s (py_add fo (repeat item) (PyInt 1))) (PyInt 0) rle"

fun expand :: "'f float_ops \<Rightarrow> 'f pynum \<Rightarrow> 'f pynum \<Rightarrow> nat \<Rightarrow> 'f pynum list" where
  "expand fo v s 0 = []"
| "expand fo v s (Suc n) = v # expand fo (py_add fo v s) s n"

definition item_values :: "'f float_ops \<Rightarrow> 'f RLEItem \<Rightarrow> 'f pynum gen" where
  "item_values fo item =
     (case repeat item of
        PyInt r \<Rightarrow> (expand fo (datum item) (stride item) (nat (r + 1)), None)
      | PyFloat x \<Rightarrow> ([], Some TypeError))"

fun rle_values :: "'f float_ops \<Rightarrow> 'f RLE \<Rightarrow> 'f pynum gen" where
  "rle_values fo [] = ([], None)"
| "rle_values fo (item # items) =
     (case item_values fo item of
        (vs, Some e) \<Rightarrow> (vs, Some e)
      | (vs, None) \<Rightarrow> (case rle_values fo items of (ws, e) \<Rightarrow> (vs @ ws, e)))"

text \<open>
  \<^verbatim>\<open>create_rle\<close>: the first value opens an item (stride 0, repeat 0); the second value of
  an item fixes its stride; a later value continues the item while its step from the
  previous value equals that stride, and opens a new item otherwise.
\<close>

fun create_from :: "'f float_ops \<Rightarrow> 'f RLEItem \<Rightarrow> 'f pynum \<Rightarrow> 'f pynum list \<Rightarrow> 'f RLE" where
  "create_from fo cur prev [] = [cur]"
| "create_from fo cur prev (v # vs) =
     (if repeat cur = PyInt 0
      then create_from fo (cur\<lparr>stride := py_sub fo v prev, repeat := PyInt 1\<rparr>) v vs
      else if py_eq fo (py_sub fo v prev) (stride cur)
      then create_from fo (cur\<lparr>repeat := py_add fo (repeat cur) (PyInt 1)\<rparr>) v vs
      else cur # create_from fo \<lparr>datum = v, stride = PyInt 0, repeat = PyInt 0\<rparr> v vs)"

fun create_rle :: "'f float_ops \<Rightarrow> 'f pynum list \<Rightarrow> 'f RLE" where
  "create_rle fo [] = []"
| "create_rle fo (v # vs) = create_from fo \<lparr>datum = v, stride = PyInt 0, repeat = PyInt 0\<rparr> v vs"

section \<open>The RLE codec: \<^verbatim>\<open>xml_rle_write\<close>, \<^verbatim>\<open>xml_rle_read\<close>\<close>

definition rle_item_to_XML :: "'f float_ops \<Rightarrow> bool \<Rightarrow> 'f RLEItem \<Rightarrow> error + Element" where
  "rle_item_to_XML fo hex_output rle_item =
     err_bind (if hex_output then format_0x (datum rle_item)
               else Inr (format_plain fo (datum rle_item))) (\<lambda>d.
     err_bind (if hex_output then format_0x (stride rle_item)
               else Inr (format_plain fo (stride rle_item))) (\<lambda>s.
     err_bind (format_d (repeat rle_item)) (\<lambda>r.
     Inr (Element ''RLE'' [(''datum'', d), (''stride'', s), (''repeat'', r)] []))))"

definition xml_rle_write :: "'f float_ops \<Rightarrow> 'f RLE \<Rightarrow> string \<Rightarrow> bool \<Rightarrow> error + Element" where
  "xml_rle_write fo rle element_name hex_output =
     err_bind (format_d (num_values fo rle)) (\<lambda>count.
     err_bind (err_map (rle_item_to_XML fo hex_output) rle) (\<lambda>items.
     Inr (Element element_name
            [(''count'', count), (''rle_len'', py_str_int (int (length rle)))] items)))"

definition rle_convert_datum_or_stride :: "'f float_ops \<Rightarrow> string \<Rightarrow> error + 'f pynum" where
  "rle_convert_datum_or_stride fo a =
     (if startswith a ''0x'' then err_bind (py_int16 a) (\<lambda>n. Inr (PyInt n))
      else if CHR ''.'' \<in> set a
      then (case float_of_str fo a of None \<Rightarrow> Inl ValueError | Some x \<Rightarrow> Inr (PyFloat x))
      else err_bind (py_int a) (\<lambda>n. Inr (PyInt n)))"

definition rle_item_from_XML :: "'f float_ops \<Rightarrow> Element \<Rightarrow> error + 'f RLEItem" where
  "rle_item_from_XML fo element_rle =
     err_bind (attr element_rle ''datum'') (\<lambda>a.
     err_bind (rle_convert_datum_or_stride fo a) (\<lambda>d.
     err_bind (attr element_rle ''repeat'') (\<lambda>a.
     err_bind (rle_convert_datum_or_stride fo a) (\<lambda>r.
     err_bind (attr element_rle ''stride'') (\<lambda>a.
     err_bind (rle_convert_datum_or_stride fo a) (\<lambda>s.
     Inr \<lparr>datum = d, stride = s, repeat = r\<rparr>))))))"

definition CountMismatch :: error where
  "CountMismatch = ExceptionIndexXMLRead ''Expected {count} RLE items but got {ret.num_values()}''"

definition LenMismatch :: error where
  "LenMismatch = ExceptionIndexXMLRead ''Expected {rle_len} RLE items but got {len(ret)}''"

definition xml_rle_read :: "'f float_ops \<Rightarrow> Element \<Rightarrow> error + 'f RLE" where
  "xml_rle_read fo element =
     err_bind (err_map (rle_item_from_XML fo) (iterfind element [''RLE''])) (\<lambda>ret.
     err_bind (attr element ''count'') (\<lambda>a.
     err_bind (py_int a) (\<lambda>count.
     if \<not> py_eq fo (PyInt count) (num_values fo ret) then Inl CountMismatch
     else
       err_bind (attr element ''rle_len'') (\<lambda>a.
       err_bind (py_int a) (\<lambda>rle_len.
       if rle_len \<noteq> int (length ret) then Inl LenMismatch
       else Inr ret)))))"

definition is_count_mismatch :: "error + 'a \<Rightarrow> bool" where
  "is_count_mismatch r = (r = Inl CountMismatch \<or> r = Inl LenMismatch)"






section \<open>Object names, channels and frame arrays\<close>

text \<open>
  Modelled from the spec: the classes \<^verbatim>\<open>RepCode.ObjectName\<close>, \<^verbatim>\<open>LogPass.FrameChannel\<close> and
  \<^verbatim>\<open>LogPass.FrameArray\<close> are not among the source files. An \<^verbatim>\<open>ObjectName\<close> is the
  triple (O, C, I); its constructor stores what it is given. The spec has O and C as
  integers, the codec also builds one from attribute texts, so the two fields hold
  either. A channel has an identifier, a long name, a representation code, units, its
  dimensions and the derived element count; its identifier is an \<^verbatim>\<open>ObjectName\<close> in the
  spec, the codec also passes a bare byte string. A frame array has an identifier, a
  description and the ordered list of its channels; its length is their number.
\<close>

datatype oc_value = OInt int | OStr string

fun format_oc :: "oc_value \<Rightarrow> string" where
  "format_oc (OInt n) = py_str_int n"
| "format_oc (OStr s) = s"

record ObjectName =
  on_O :: oc_value
  on_C :: oc_value
  on_I :: string

datatype ident_value = IdentObjectName ObjectName | IdentBytes string

record FrameChannel =
  ident :: ident_value
  long_name :: string
  rep_code :: int
  units :: string
  dimensions :: "int list"

definition channel_count :: "FrameChannel \<Rightarrow> int" where
  "channel_count channel = prod_list (dimensions channel)"

record FrameArray =
  fa_ident :: ObjectName
  description :: string
  channels :: "FrameChannel list"

definition xml_object_name_attributes :: "ObjectName \<Rightarrow> error + (string \<times> string) list" where
  "xml_object_name_attributes object_name =
     err_bind (decode_ascii (on_I object_name)) (\<lambda>i.
     Inr [(''O'', format_oc (on_O object_name)), (''C'', format_oc (on_C object_name)), (''I'', i)])"

definition xml_object_name :: "Element \<Rightarrow> error + ObjectName" where
  "xml_object_name node =
     err_bind (attr node ''O'') (\<lambda>o_attr.
     err_bind (attr node ''C'') (\<lambda>c_attr.
     err_bind (attr node ''I'') (\<lambda>i_attr.
     err_bind (encode_ascii i_attr) (\<lambda>i.
     Inr \<lparr>on_O = OStr o_attr, on_C = OStr c_attr, on_I = i\<rparr>))))"

text \<open>
  \<^verbatim>\<open>channel.ident.O\<close> and its siblings: attribute access on an identifier that is a bare
  byte string raises \<^verbatim>\<open>AttributeError\<close>.
\<close>

fun ident_object_name :: "ident_value \<Rightarrow> error + ObjectName" where
  "ident_object_name (IdentObjectName n) = Inr n"
| "ident_object_name (IdentBytes b) = Inl AttributeError"

definition frame_channel_to_XML :: "FrameChannel \<Rightarrow> error + Element" where
  "frame_channel_to_XML channel =
     err_bind (ident_object_name (ident channel)) (\<lambda>n.
     err_bind (decode_ascii (on_I n)) (\<lambda>i.
     err_bind (decode_ascii (long_name channel)) (\<lambda>ln.
     err_bind (decode_ascii (units channel)) (\<lambda>u.
     Inr (Element ''Channel''
            [(''O'', format_oc (on_O n)),
             (''C'', format_oc (on_C n)),
             (''I'', i),
             (''long_name'', ln),
             (''rep_code'', py_str_int (rep_code channel)),
             (''units'', u),
             (''dimensions'', join_comma (map py_str_int (dimensions channel))),
             (''count'', py_str_int (channel_count channel))] [])))))"

definition frame_channel_from_XML :: "Element \<Rightarrow> error + FrameChannel" where
  "frame_channel_from_XML channel_node =
     (if tag channel_node \<noteq> ''Channel'' then Inl ValueError
      else
        err_bind (attr channel_node ''I'') (\<lambda>a.
        err_bind (encode_ascii a) (\<lambda>i.
        err_bind (attr channel_node ''long_name'') (\<lambda>a.
        err_bind (encode_ascii a) (\<lambda>ln.
        err_bind (attr channel_node ''rep_code'') (\<lambda>a.
        err_bind (py_int a) (\<lambda>rc.
        err_bind (attr channel_node ''units'') (\<lambda>a.
        err_bind (encode_ascii a) (\<lambda>u.
        err_bind (attr channel_node ''dimensions'') (\<lambda>a.
        err_bind (err_map py_int (split_comma a)) (\<lambda>dims.
        Inr \<lparr>ident = IdentBytes i, long_name = ln, rep_code = rc, units = u,
             dimensions = dims\<rparr>)))))))))))"

section \<open>The IFLR side-table\<close>

text \<open>
  \<^verbatim>\<open>core/LogPassXML.py\<close> declares the entry of the side-table as the named tuple
  \<^verbatim>\<open>IFLRData(frame_number, lrsh_position, x_axis)\<close>. \<^verbatim>\<open>IndexXML.py\<close> uses
  \<^verbatim>\<open>XAxis.IFLRReference\<close> instead, whose declaration is not among the source files: its
  positional constructor and the three attributes the writer reads
  (\<^verbatim>\<open>v.frame_number\<close>, \<^verbatim>\<open>v.logical_record_position.lrsh_position\<close>, \<^verbatim>\<open>v.x_axis\<close>) are the
  fields of a record of operations the functions of \<^verbatim>\<open>IndexXML.py\<close> take.
  \<open>IFLRData_ops\<close> is that record for \<^verbatim>\<open>IFLRData\<close>: the constructor fills the fields in
  the order of their declaration.
\<close>

record 'f IFLRData =
  frame_number :: "'f pynum"
  lrsh_position :: "'f pynum"
  x_axis :: "'f pynum"

record ('f, 'r) iflr_ops =
  IFLRReference :: "'f pynum \<Rightarrow> 'f pynum \<Rightarrow> 'f pynum \<Rightarrow> 'r"
  ref_frame_number :: "'r \<Rightarrow> 'f pynum"
  ref_lrsh_position :: "'r \<Rightarrow> 'f pynum"
  ref_x_axis :: "'r \<Rightarrow> 'f pynum"

definition IFLRData_ops :: "('f, 'f IFLRData) iflr_ops" where
  "IFLRData_ops =
     \<lparr> IFLRReference = (\<lambda>a b c. \<lparr>frame_number = a, lrsh_position = b, x_axis = c\<rparr>),
       ref_frame_number = frame_number,
       ref_lrsh_position = lrsh_position,
       ref_x_axis = x_axis \<rparr>"

text \<open>
  \<^verbatim>\<open>zip\<close> of three generators draws one value from each in turn and stops at the first
  that ends or raises.
\<close>

fun zip3 :: "'a gen \<Rightarrow> 'b gen \<Rightarrow> 'c gen \<Rightarrow> ('a \<times> 'b \<times> 'c) gen" where
  "zip3 ([], ea) gb gc = ([], ea)"
| "zip3 (a # as, ea) ([], eb) gc = ([], eb)"
| "zip3 (a # as, ea) (b # bs, eb) ([], ec) = ([], ec)"
| "zip3 (a # as, ea) (b # bs, eb) (c # cs, ec) =
     (case zip3 (as, ea) (bs, eb) (cs, ec) of (r, e) \<Rightarrow> ((a, b, c) # r, e))"

definition gen_map :: "('a \<Rightarrow> 'b) \<Rightarrow> 'a gen \<Rightarrow> 'b gen" where
  "gen_map f g = (map f (fst g), snd g)"

definition MismatchedCounts :: error where
  "MismatchedCounts = ExceptionFrameArrayInit ''Mismatched counts of LRSH, FrameNumbers and Xaxis''"

text \<open>
  \<^verbatim>\<open>len({a, b, c, d}) != 1\<close>: the set keeps one element exactly when the later three
  each equal the first.
\<close>

definition set_of_four_is_single :: "'f float_ops \<Rightarrow> 'f pynum \<Rightarrow> 'f pynum \<Rightarrow> 'f pynum \<Rightarrow> 'f pynum \<Rightarrow> bool" where
  "set_of_four_is_single fo a b c d = (py_eq fo a b \<and> py_eq fo a c \<and> py_eq fo a d)"

definition iflr_data_from_xml :: "'f float_ops \<Rightarrow> ('f, 'r) iflr_ops \<Rightarrow> Element \<Rightarrow> error + 'r gen" where
  "iflr_data_from_xml fo ops frame_array_node =
     err_bind (xml_single_element frame_array_node [''IFLR'']) (\<lambda>iflr_node.
     err_bind (xml_single_element iflr_node [''LRSH'']) (\<lambda>e.
     err_bind (xml_rle_read fo e) (\<lambda>rle_lrsh.
     err_bind (xml_single_element iflr_node [''FrameNumbers'']) (\<lambda>e.
     err_bind (xml_rle_read fo e) (\<lambda>rle_frames.
     err_bind (xml_single_element iflr_node [''Xaxis'']) (\<lambda>e.
     err_bind (xml_rle_read fo e) (\<lambda>rle_xaxis.
     err_bind (attr iflr_node ''count'') (\<lambda>a.
     err_bind (py_int a) (\<lambda>count.
     if \<not> set_of_four_is_single fo (PyInt count) (num_values fo rle_lrsh)
            (num_values fo rle_frames) (num_values fo rle_xaxis)
     then Inl MismatchedCounts
     else Inr (gen_map (\<lambda>(a, b, c). IFLRReference ops a b c)
                 (zip3 (rle_values fo rle_lrsh) (rle_values fo rle_frames)
                       (rle_values fo rle_xaxis))))))))))))"

section \<open>The frame array codec\<close>

definition iflr_to_XML :: "'f float_ops \<Rightarrow> ('f, 'r) iflr_ops \<Rightarrow> 'r list \<Rightarrow> error + Element" where
  "iflr_to_XML fo ops iflr_data =
     err_bind (xml_rle_write fo (create_rle fo (map (ref_frame_number ops) iflr_data))
                 ''FrameNumbers'' False) (\<lambda>frames.
     err_bind (xml_rle_write fo (create_rle fo (map (ref_lrsh_position ops) iflr_data))
                 ''LRSH'' True) (\<lambda>lrsh.
     err_bind (xml_rle_write fo (create_rle fo (map (ref_x_axis ops) iflr_data))
                 ''Xaxis'' False) (\<lambda>xaxis.
     Inr (Element ''IFLR'' [(''count'', py_str_int (int (length iflr_data)))]
            [frames, lrsh, xaxis]))))"

definition channels_to_XML :: "FrameArray \<Rightarrow> error + Element" where
  "channels_to_XML frame_array =
     err_bind (err_map frame_channel_to_XML (channels frame_array)) (\<lambda>cs.
     Inr (Element ''Channels''
            [(''count'', py_str_int (int (length (channels frame_array))))] cs))"

text \<open>\<^verbatim>\<open>frame_array.channels[0]\<close>.\<close>

definition first_channel :: "FrameArray \<Rightarrow> error + FrameChannel" where
  "first_channel frame_array =
     (case channels frame_array of [] \<Rightarrow> Inl IndexError | c # _ \<Rightarrow> Inr c)"

text \<open>\<^verbatim>\<open>frame_array_to_XML\<close> of \<^verbatim>\<open>IndexXML.py\<close>.\<close>

definition frame_array_to_XML :: "'f float_ops \<Rightarrow> ('f, 'r) iflr_ops \<Rightarrow> FrameArray \<Rightarrow> 'r list \<Rightarrow> error + Element" where
  "frame_array_to_XML fo ops frame_array iflr_data =
     err_bind (decode_ascii (on_I (fa_ident frame_array))) (\<lambda>i.
     err_bind (decode_ascii (description frame_array)) (\<lambda>d.
     err_bind (first_channel frame_array) (\<lambda>c0.
     err_bind (ident_object_name (ident c0)) (\<lambda>n0.
     err_bind (decode_ascii (on_I n0)) (\<lambda>xa.
     err_bind (first_channel frame_array) (\<lambda>c0.
     err_bind (decode_ascii (units c0)) (\<lambda>xu.
     err_bind (channels_to_XML frame_array) (\<lambda>cs.
     err_bind (iflr_to_XML fo ops iflr_data) (\<lambda>iflr.
     Inr (Element ''FrameArray''
            [(''O'', format_oc (on_O (fa_ident frame_array))),
             (''C'', format_oc (on_C (fa_ident frame_array))),
             (''I'', i),
             (''description'', d),
             (''x_axis'', xa),
             (''x_units'', xu)]
            [cs, iflr]))))))))))"

text \<open>\<^verbatim>\<open>frame_array_to_XML\<close> of \<^verbatim>\<open>core/LogPassXML.py\<close>: no x-axis attributes.\<close>

definition LogPassXML_frame_array_to_XML :: "'f float_ops \<Rightarrow> FrameArray \<Rightarrow> 'f IFLRData list \<Rightarrow> error + Element" where
  "LogPassXML_frame_array_to_XML fo frame_array iflr_data =
     err_bind (decode_ascii (on_I (fa_ident frame_array))) (\<lambda>i.
     err_bind (decode_ascii (description frame_array)) (\<lambda>d.
     err_bind (channels_to_XML frame_array) (\<lambda>cs.
     err_bind (iflr_to_XML fo IFLRData_ops iflr_data) (\<lambda>iflr.
     Inr (Element ''FrameArray''
            [(''O'', format_oc (on_O (fa_ident frame_array))),
             (''C'', format_oc (on_C (fa_ident frame_array))),
             (''I'', i),
             (''description'', d)]
            [cs, iflr])))))"

text \<open>
  \<^verbatim>\<open>frame_array_from_XML\<close> of \<^verbatim>\<open>IndexXML.py\<close>. The one of \<^verbatim>\<open>core/LogPassXML.py\<close> has
  the body of \<^verbatim>\<open>iflr_data_from_xml\<close> in line, statement for statement, and builds
  \<^verbatim>\<open>IFLRData(*v)\<close>.
\<close>

definition frame_array_from_XML :: "'f float_ops \<Rightarrow> ('f, 'r) iflr_ops \<Rightarrow> Element \<Rightarrow> error + (FrameArray \<times> 'r gen)" where
  "frame_array_from_XML fo ops frame_array_node =
     (if tag frame_array_node \<noteq> ''FrameArray'' then Inl ValueError
      else
        err_bind (xml_object_name frame_array_node) (\<lambda>n.
        err_bind (attr frame_array_node ''description'') (\<lambda>a.
        err_bind (encode_ascii a) (\<lambda>d.
        err_bind (err_map frame_channel_from_XML
                    (iterfind frame_array_node [''Channels'', ''Channel''])) (\<lambda>cs.
        err_bind (iflr_data_from_xml fo ops frame_array_node) (\<lambda>iflr.
        Inr (\<lparr>fa_ident = n, description = d, channels = cs\<rparr>, iflr)))))))"

definition LogPassXML_frame_array_from_XML :: "'f float_ops \<Rightarrow> Element \<Rightarrow> error + (FrameArray \<times> 'f IFLRData gen)" where
  "LogPassXML_frame_array_from_XML fo frame_array_node =
     frame_array_from_XML fo IFLRData_ops frame_array_node"

section \<open>Reading a Logical File\<close>

text \<open>
  \<^verbatim>\<open>read_logical_file_from_xml\<close> takes the node and the handle of the original binary
  file. The handle is its method \<^verbatim>\<open>get_file_logical_data(vr_position, lrsh_position)\<close>;
  the positions it was called with, in order, are kept in a log that the function takes
  and returns, so that what is read from the binary file, and when, is part of the
  result. The classes built from what is read (\<^verbatim>\<open>ExplicitlyFormattedLogicalRecord\<close>,
  \<^verbatim>\<open>LogicalFile\<close> with \<^verbatim>\<open>add_eflr\<close> and its dictionary \<^verbatim>\<open>iflr_position_map\<close>) are outside
  the source files: they are the fields of a record of operations, each free to raise.
\<close>

type_synonym file_log = "(int \<times> int) list"

type_synonym 'fld file_read = "int \<Rightarrow> int \<Rightarrow> error + 'fld"

record ('fld, 'eflr, 'lf, 'r) logical_file_ops =
  ExplicitlyFormattedLogicalRecord :: "'fld \<Rightarrow> error + 'eflr"
  LogicalFile :: "'fld \<Rightarrow> 'eflr \<Rightarrow> error + 'lf"
  add_eflr :: "'lf \<Rightarrow> 'fld \<Rightarrow> 'eflr \<Rightarrow> error + 'lf"
  iflr_position_map_contains :: "'lf \<Rightarrow> ObjectName \<Rightarrow> bool"
  iflr_position_map_set :: "'lf \<Rightarrow> ObjectName \<Rightarrow> 'r list \<Rightarrow> 'lf"

definition NotEnoughEFLRs :: error where
  "NotEnoughEFLRs = ExceptionRP66V1IndexXMLRead
     ''Not enough EFLRs to create a LogicalFile, need at least FILE-HEADER and ORIGIN [RP66V1 2.2.3 Logical File (LF)]''"

definition FirstNotFileHeader :: error where
  "FirstNotFileHeader = ExceptionRP66V1IndexXMLRead
     ''First EFLR in a Logical File must be a FILE-HEADER [RP66V1 2.2.3 Logical File (LF)]''"

definition SecondNotOrigin :: error where
  "SecondNotOrigin = ExceptionRP66V1IndexXMLRead
     ''Second EFLR in a Logical File must be a ORIGIN [RP66V1 2.2.3 Logical File (LF)]''"

definition DuplicateFrameArray :: error where
  "DuplicateFrameArray = ExceptionRP66V1IndexXMLRead ''Duplicate Frame Array entry {frame_array_object_name}''"

text \<open>
  One EFLR: both positions are read from the node, then the binary file is read at
  them, then the record is decoded.
\<close>

definition read_eflr ::
  "('fld, 'eflr, 'lf, 'r) logical_file_ops \<Rightarrow> 'fld file_read \<Rightarrow> Element \<Rightarrow> file_log
     \<Rightarrow> (error + ('fld \<times> 'eflr)) \<times> file_log" where
  "read_eflr lops rp66v1_file eflr_node log =
     (case xml_integer_attribute_read eflr_node ''vr_position'' of
        Inl e \<Rightarrow> (Inl e, log)
      | Inr vr \<Rightarrow>
     (case xml_integer_attribute_read eflr_node ''lrsh_position'' of
        Inl e \<Rightarrow> (Inl e, log)
      | Inr lrsh \<Rightarrow>
     (case rp66v1_file vr lrsh of
        Inl e \<Rightarrow> (Inl e, log @ [(vr, lrsh)])
      | Inr fld \<Rightarrow>
     (case ExplicitlyFormattedLogicalRecord lops fld of
        Inl e \<Rightarrow> (Inl e, log @ [(vr, lrsh)])
      | Inr eflr \<Rightarrow> (Inr (fld, eflr), log @ [(vr, lrsh)])))))"

fun add_eflrs ::
  "('fld, 'eflr, 'lf, 'r) logical_file_ops \<Rightarrow> 'fld file_read \<Rightarrow> 'lf \<Rightarrow> Element list \<Rightarrow> file_log
     \<Rightarrow> (error + 'lf) \<times> file_log" where
  "add_eflrs lops rp66v1_file logical_file [] log = (Inr logical_file, log)"
| "add_eflrs lops rp66v1_file logical_file (eflr_node # nodes) log =
     (case read_eflr lops rp66v1_file eflr_node log of
        (Inl e, log') \<Rightarrow> (Inl e, log')
      | (Inr (fld, eflr), log') \<Rightarrow>
          (case add_eflr lops logical_file fld eflr of
             Inl e \<Rightarrow> (Inl e, log')
           | Inr logical_file' \<Rightarrow> add_eflrs lops rp66v1_file logical_file' nodes log'))"

fun read_frame_arrays ::
  "'f float_ops \<Rightarrow> ('f, 'r) iflr_ops \<Rightarrow> ('fld, 'eflr, 'lf, 'r) logical_file_ops \<Rightarrow> 'lf
     \<Rightarrow> Element list \<Rightarrow> error + 'lf" where
  "read_frame_arrays fo ops lops logical_file [] = Inr logical_file"
| "read_frame_arrays fo ops lops logical_file (frame_array_node # nodes) =
     err_bind (xml_object_name frame_array_node) (\<lambda>frame_array_object_name.
     err_bind (iflr_data_from_xml fo ops frame_array_node) (\<lambda>iflr_data.
     if iflr_position_map_contains lops logical_file frame_array_object_name
     then Inl DuplicateFrameArray
     else
       err_bind (list_of_gen iflr_data) (\<lambda>l.
       read_frame_arrays fo ops lops
         (iflr_position_map_set lops logical_file frame_array_object_name l) nodes)))"

definition read_logical_file_from_xml ::
  "'f float_ops \<Rightarrow> ('f, 'r) iflr_ops \<Rightarrow> ('fld, 'eflr, 'lf, 'r) logical_file_ops
     \<Rightarrow> Element \<Rightarrow> 'fld file_read \<Rightarrow> file_log \<Rightarrow> (error + 'lf) \<times> file_log" where
  "read_logical_file_from_xml fo ops lops logical_file_node rp66v1_file log =
     (if tag logical_file_node \<noteq> ''LogicalFile'' then (Inl AssertionError, log)
      else
        (case iterfind logical_file_node [''EFLR''] of
           e0 # e1 # rest \<Rightarrow>
             (case attr e0 ''set_type'' of
                Inl e \<Rightarrow> (Inl e, log)
              | Inr t0 \<Rightarrow>
                  if t0 \<noteq> ''FILE-HEADER'' then (Inl FirstNotFileHeader, log)
                  else
                    (case attr e1 ''set_type'' of
                       Inl e \<Rightarrow> (Inl e, log)
                     | Inr t1 \<Rightarrow>
                         if t1 \<noteq> ''ORIGIN'' then (Inl SecondNotOrigin, log)
                         else
                           (case read_eflr lops rp66v1_file e0 log of
                              (Inl e, log1) \<Rightarrow> (Inl e, log1)
                            | (Inr (fld, eflr), log1) \<Rightarrow>
                                (case LogicalFile lops fld eflr of
                                   Inl e \<Rightarrow> (Inl e, log1)
                                 | Inr logical_file \<Rightarrow>
                                     (case add_eflrs lops rp66v1_file logical_file (e1 # rest) log1 of
                                        (Inl e, log2) \<Rightarrow> (Inl e, log2)
                                      | (Inr logical_file', log2) \<Rightarrow>
                                          (read_frame_arrays fo ops lops logical_file'
                                             (iterfind logical_file_node [''LogPass'', ''FrameArray'']),
                                           log2))))))
         | _ \<Rightarrow> (Inl NotEnoughEFLRs, log)))"

section \<open>Reading the Storage Unit Label\<close>

text \<open>
  \<^verbatim>\<open>StorageUnitLabel.create_storage_unit_label\<close> is outside the source files; it is the
  first argument of the function, free to raise.
\<close>

definition BadDlisVersion :: error where
  "BadDlisVersion = ExceptionIndexXMLRead ''Found DLIS version {dlis_version} but expected {exp}''"

definition BadSequenceNumber :: error where
  "BadSequenceNumber = ExceptionIndexXMLRead ''Sequence number must be >0 not {sequence_number}''"

definition BadStorageUnitStructure :: error where
  "BadStorageUnitStructure = ExceptionIndexXMLRead
     ''Found Storage Unit Structure {storage_unit_structure} but expected {exp}''"

definition read_storage_unit_label_from_xml ::
  "(int \<Rightarrow> string \<Rightarrow> int \<Rightarrow> string \<Rightarrow> error + 'sul) \<Rightarrow> Element \<Rightarrow> error + 'sul" where
  "read_storage_unit_label_from_xml create_storage_unit_label root =
     err_bind (xml_single_element root [''StorageUnitLabel'']) (\<lambda>sul_element.
     err_bind (attr sul_element ''dlis_version'') (\<lambda>a.
     err_bind (encode_ascii a) (\<lambda>dlis_version.
     if dlis_version \<noteq> ''V1.00'' then Inl BadDlisVersion
     else
       err_bind (attr sul_element ''sequence_number'') (\<lambda>a.
       err_bind (py_int a) (\<lambda>sequence_number.
       if sequence_number \<le> 0 then Inl BadSequenceNumber
       else
         err_bind (attr sul_element ''maximum_record_length'') (\<lambda>a.
         err_bind (py_int a) (\<lambda>maximum_record_length.
         err_bind (attr sul_element ''storage_unit_structure'') (\<lambda>a.
         err_bind (encode_ascii a) (\<lambda>storage_unit_structure.
         if storage_unit_structure \<noteq> ''RECORD'' then Inl BadStorageUnitStructure
         else
           err_bind (attr sul_element ''storage_set_identifier'') (\<lambda>a.
           err_bind (encode_ascii a) (\<lambda>storage_set_identifier.
           create_storage_unit_label sequence_number dlis_version maximum_record_length
             storage_set_identifier)))))))))))"

section \<open>Reading the Logical Index\<close>

text \<open>
  Modelled from the spec: \<^verbatim>\<open>LogicalFile.LogicalIndex\<close> is not among the source files. It
  holds the path of the binary file, the Storage Unit Label, the ordered list of Logical
  Files and the Visible Record positions; built without a file (\<^verbatim>\<open>LogicalIndex(None, path)\<close>)
  it has no Logical File yet.

  The file system and the parser are a record of operations: parsing the document at a
  path, \<^verbatim>\<open>os.path.join\<close>, \<^verbatim>\<open>os.path.isfile\<close>, \<^verbatim>\<open>binary_file_type_from_path\<close>, opening the
  binary file with \<^verbatim>\<open>File.FileRead\<close>, and \<^verbatim>\<open>create_storage_unit_label\<close>.
\<close>

record ('sul, 'lf, 'f) LogicalIndex =
  li_id :: string
  storage_unit_label :: 'sul
  logical_files :: "'lf list"
  visible_record_positions :: "'f pynum list"

record ('fld, 'sul) index_read_ops =
  xml_parse :: "string \<Rightarrow> error + Element"
  path_join :: "string \<Rightarrow> string \<Rightarrow> string"
  isfile :: "string \<Rightarrow> bool"
  binary_file_type_from_path :: "string \<Rightarrow> error + string"
  FileRead :: "string \<Rightarrow> error + 'fld file_read"
  create_storage_unit_label :: "int \<Rightarrow> string \<Rightarrow> int \<Rightarrow> string \<Rightarrow> error + 'sul"

definition XML_SCHEMA_VERSION :: string where
  "XML_SCHEMA_VERSION = ''0.1.0''"

definition BadRootTag :: error where
  "BadRootTag = ExceptionRP66V1IndexXMLRead ''Got element tag of {root.tag} but expected RP66V1FileIndex''"

definition BadSchemaVersion :: error where
  "BadSchemaVersion = ExceptionRP66V1IndexXMLRead
     ''Found schema version {root.attrib[schema_version]} but expected {XML_SCHEMA_VERSION}''"

definition NotAFile :: error where
  "NotAFile = ExceptionRP66V1IndexXMLRead ''Not a file: {original_file_path}''"

definition NotRP66V1 :: error where
  "NotRP66V1 = ExceptionRP66V1IndexXMLRead
     ''File: {original_file_path} is not a RP66V1 file but {bin_file_type}''"

definition LogicalFileCountMismatch :: error where
  "LogicalFileCountMismatch = ExceptionRP66V1IndexXMLRead
     ''Found {len(logical_index.logical_files)} logical Files but expected {logical_file_count}''"

text \<open>The loop over the \<^verbatim>\<open>LogicalFile\<close> children: it stops at the first that raises.\<close>

fun read_logical_files ::
  "'f float_ops \<Rightarrow> ('f, 'r) iflr_ops \<Rightarrow> ('fld, 'eflr, 'lf, 'r) logical_file_ops
     \<Rightarrow> 'fld file_read \<Rightarrow> Element list \<Rightarrow> file_log \<Rightarrow> (error + 'lf list) \<times> file_log" where
  "read_logical_files fo ops lops rp66v1file [] log = (Inr [], log)"
| "read_logical_files fo ops lops rp66v1file (logical_file_node # nodes) log =
     (case read_logical_file_from_xml fo ops lops logical_file_node rp66v1file log of
        (Inl e, log') \<Rightarrow> (Inl e, log')
      | (Inr lf, log') \<Rightarrow>
          (case read_logical_files fo ops lops rp66v1file nodes log' of
             (Inl e, log'') \<Rightarrow> (Inl e, log'')
           | (Inr lfs, log'') \<Rightarrow> (Inr (lf # lfs), log'')))"

text \<open>
  The statements of \<^verbatim>\<open>read_logical_index_from_xml\<close> before its loop: they give the path
  of the binary file, the Storage Unit Label, the \<^verbatim>\<open>LogicalFiles\<close> node, its declared
  count and the opened binary file.
\<close>

definition logical_index_open ::
  "('fld, 'sul) index_read_ops \<Rightarrow> string \<Rightarrow> string
     \<Rightarrow> error + (Element \<times> string \<times> 'sul \<times> Element \<times> int \<times> 'fld file_read)" where
  "logical_index_open os index_path archive_root =
     err_bind (xml_parse os index_path) (\<lambda>root.
     if tag root \<noteq> ''RP66V1FileIndex'' then Inl BadRootTag
     else
       err_bind (attr root ''schema_version'') (\<lambda>v.
       if v \<noteq> XML_SCHEMA_VERSION then Inl BadSchemaVersion
       else
         err_bind (attr root ''path'') (\<lambda>path.
         let original_file_path = path_join os archive_root path in
         if \<not> isfile os original_file_path then Inl NotAFile
         else
           err_bind (binary_file_type_from_path os original_file_path) (\<lambda>bin_file_type.
           if bin_file_type \<noteq> ''RP66V1'' then Inl NotRP66V1
           else
             err_bind (read_storage_unit_label_from_xml (create_storage_unit_label os) root) (\<lambda>sul.
             err_bind (xml_single_element root [''LogicalFiles'']) (\<lambda>logical_files_node.
             err_bind (attr logical_files_node ''count'') (\<lambda>a.
             err_bind (py_int a) (\<lambda>logical_file_count.
             err_bind (FileRead os original_file_path) (\<lambda>rp66v1file.
             Inr (root, original_file_path, sul, logical_files_node, logical_file_count,
                  rp66v1file))))))))))"

text \<open>The statements after the count check: the Visible Record positions.\<close>

definition logical_index_close ::
  "'f float_ops \<Rightarrow> Element \<Rightarrow> string \<Rightarrow> 'sul \<Rightarrow> 'lf list \<Rightarrow> error + ('sul, 'lf, 'f) LogicalIndex" where
  "logical_index_close fo root original_file_path sul lfs =
     err_bind (xml_single_element root [''VisibleRecords'']) (\<lambda>e.
     err_bind (xml_rle_read fo e) (\<lambda>rle_vr.
     err_bind (list_of_gen (rle_values fo rle_vr)) (\<lambda>positions.
     Inr \<lparr>li_id = original_file_path, storage_unit_label = sul, logical_files = lfs,
          visible_record_positions = positions\<rparr>)))"

definition read_logical_index_from_xml ::
  "'f float_ops \<Rightarrow> ('f, 'r) iflr_ops \<Rightarrow> ('fld, 'eflr, 'lf, 'r) logical_file_ops
     \<Rightarrow> ('fld, 'sul) index_read_ops \<Rightarrow> string \<Rightarrow> string
     \<Rightarrow> error + ('sul, 'lf, 'f) LogicalIndex" where
  "read_logical_index_from_xml fo ops lops os index_path archive_root =
     err_bind (logical_index_open os index_path archive_root)
       (\<lambda>(root, original_file_path, sul, logical_files_node, logical_file_count, rp66v1file).
     err_bind (fst (read_logical_files fo ops lops rp66v1file
                      (iterfind logical_files_node [''LogicalFile'']) [])) (\<lambda>lfs.
     if int (length lfs) \<noteq> logical_file_count then Inl LogicalFileCountMismatch
     else logical_index_close fo root original_file_path sul lfs))"

section \<open>Indexing files\<close>









section \<open>Example documents and environments\<close>

text \<open>
  Concrete inputs at which the theorems below are used: the documents are cut from the
  examples in the docstrings of the source; the operations are simple stand-ins for the
  classes outside the source files.
\<close>

text \<open>The example of the docstring of \<^verbatim>\<open>xml_rle_read\<close>, cut to its first run.\<close>

definition visible_records_example :: Element where
  "visible_records_example =
     Element ''VisibleRecords'' [(''count'', ''7''), (''rle_len'', ''1'')]
       [Element ''RLE'' [(''datum'', ''0x50''), (''repeat'', ''6''), (''stride'', ''0x2000'')] []]"

definition simple_logical_file_ops ::
  "(int \<times> int, int \<times> int, (int \<times> int) list \<times> (ObjectName \<times> 'r list) list, 'r) logical_file_ops" where
  "simple_logical_file_ops =
     \<lparr> ExplicitlyFormattedLogicalRecord = (\<lambda>fld. Inr fld),
       LogicalFile = (\<lambda>fld eflr. Inr ([eflr], [])),
       add_eflr = (\<lambda>lf fld eflr. Inr (fst lf @ [eflr], snd lf)),
       iflr_position_map_contains = (\<lambda>lf name. map_of (snd lf) name \<noteq> None),
       iflr_position_map_set = (\<lambda>lf name l. (fst lf, AList.update name l (snd lf))) \<rparr>"

definition simple_file_read :: "(int \<times> int) file_read" where
  "simple_file_read vr lrsh = (if 0 \<le> vr \<and> vr < lrsh then Inr (vr, lrsh) else Inl OSError)"

definition eflr_file_header_example :: Element where
  "eflr_file_header_example =
     Element ''EFLR''
       [(''lr_type'', ''0''), (''lrsh_position'', ''0x54''), (''object_count'', ''1''),
        (''set_name'', ''''), (''set_type'', ''FILE-HEADER''), (''vr_position'', ''0x50'')] []"

definition eflr_origin_example :: Element where
  "eflr_origin_example =
     Element ''EFLR''
       [(''lr_type'', ''1''), (''lrsh_position'', ''0xd0''), (''object_count'', ''1''),
        (''set_name'', ''''), (''set_type'', ''ORIGIN''), (''vr_position'', ''0x50'')] []"

definition logical_file_example :: Element where
  "logical_file_example =
     Element ''LogicalFile'' [(''has_log_pass'', ''False''), (''index'', ''0'')]
       [eflr_file_header_example, eflr_origin_example]"

definition logical_file_misordered_example :: Element where
  "logical_file_misordered_example =
     Element ''LogicalFile'' [(''has_log_pass'', ''False''), (''index'', ''0'')]
       [eflr_origin_example, eflr_file_header_example]"


definition simple_storage_unit_label :: "int \<Rightarrow> string \<Rightarrow> int \<Rightarrow> string \<Rightarrow> error + (int \<times> string \<times> int \<times> string)" where
  "simple_storage_unit_label sequence_number dlis_version maximum_record_length storage_set_identifier =
     Inr (sequence_number, dlis_version, maximum_record_length, storage_set_identifier)"

definition index_example :: Element where
  "index_example =
     Element ''RP66V1FileIndex'' [(''path'', ''Y4_GR_RES_RM.dlis''), (''schema_version'', ''0.1.0'')]
       [Element ''StorageUnitLabel''
          [(''dlis_version'', ''V1.00''), (''maximum_record_length'', ''8192''),
           (''sequence_number'', ''1''),
           (''storage_set_identifier'', ''Default Storage Set''),
           (''storage_unit_structure'', ''RECORD'')] [],
        Element ''LogicalFiles'' [(''count'', ''1'')] [logical_file_example],
        visible_records_example]"

definition index_miscounted_example :: Element where
  "index_miscounted_example =
     Element ''RP66V1FileIndex'' [(''path'', ''Y4_GR_RES_RM.dlis''), (''schema_version'', ''0.1.0'')]
       [Element ''StorageUnitLabel''
          [(''dlis_version'', ''V1.00''), (''maximum_record_length'', ''8192''),
           (''sequence_number'', ''1''),
           (''storage_set_identifier'', ''Default Storage Set''),
           (''storage_unit_structure'', ''RECORD'')] [],
        Element ''LogicalFiles'' [(''count'', ''2'')] [logical_file_example],
        visible_records_example]"

definition simple_index_read_ops :: "(int \<times> int, int \<times> string \<times> int \<times> string) index_read_ops" where
  "simple_index_read_ops =
     \<lparr> xml_parse = (\<lambda>p. if p = ''index.xml'' then Inr index_example
                         else if p = ''miscounted.xml'' then Inr index_miscounted_example
                         else Inl OSError),
       path_join = (\<lambda>a b. a @ ''/'' @ b),
       isfile = (\<lambda>p. True),
       binary_file_type_from_path = (\<lambda>p. Inr ''RP66V1''),
       FileRead = (\<lambda>p. Inr simple_file_read),
       create_storage_unit_label = simple_storage_unit_label \<rparr>"

definition frame_array_example :: FrameArray where
  "frame_array_example =
     \<lparr>fa_ident = \<lparr>on_O = OInt 11, on_C = OInt 0, on_I = ''0B''\<rparr>, description = '''',
      channels =
        [\<lparr>ident = IdentObjectName \<lparr>on_O = OInt 11, on_C = OInt 0, on_I = ''DEPT''\<rparr>,
          long_name = ''MWD Tool Measurement Depth'', rep_code = 2, units = ''0.1 in'',
          dimensions = [1]\<rparr>]\<rparr>"

definition iflr_data_example :: "unit IFLRData list" where
  "iflr_data_example =
     [\<lparr>frame_number = PyInt 1, lrsh_position = PyInt 5292, x_axis = PyInt 0\<rparr>,
      \<lparr>frame_number = PyInt 2, lrsh_position = PyInt 5340, x_axis = PyInt 75197\<rparr>]"

definition channels_xml_example :: Element where
  "channels_xml_example =
     Element ''Channels'' [(''count'', ''1'')]
       [Element ''Channel''
          [(''O'', ''11''), (''C'', ''0''), (''I'', ''DEPT''),
           (''long_name'', ''MWD Tool Measurement Depth''), (''rep_code'', ''2''),
           (''units'', ''0.1 in''), (''dimensions'', ''1''), (''count'', ''1'')] []]"

definition iflr_xml_example :: Element where
  "iflr_xml_example =
     Element ''IFLR'' [(''count'', ''2'')]
       [Element ''FrameNumbers'' [(''count'', ''2''), (''rle_len'', ''1'')]
          [Element ''RLE'' [(''datum'', ''1''), (''stride'', ''1''), (''repeat'', ''1'')] []],
        Element ''LRSH'' [(''count'', ''2''), (''rle_len'', ''1'')]
          [Element ''RLE'' [(''datum'', ''0x14ac''), (''stride'', ''0x30''), (''repeat'', ''1'')] []],
        Element ''Xaxis'' [(''count'', ''2''), (''rle_len'', ''1'')]
          [Element ''RLE'' [(''datum'', ''0''), (''stride'', ''75197''), (''repeat'', ''1'')] []]]"

definition frame_array_xml_example :: Element where
  "frame_array_xml_example =
     Element ''FrameArray''
       [(''O'', ''11''), (''C'', ''0''), (''I'', ''0B''), (''description'', ''''),
        (''x_axis'', ''DEPT''), (''x_units'', ''0.1 in'')]
       [channels_xml_example, iflr_xml_example]"

definition frame_array_no_channel_xml_example :: Element where
  "frame_array_no_channel_xml_example =
     Element ''FrameArray''
       [(''O'', ''11''), (''C'', ''0''), (''I'', ''0B''), (''description'', '''')]
       [Element ''Channels'' [(''count'', ''0'')] [], iflr_xml_example]"

definition LogPassXML_frame_array_xml_example :: Element where
  "LogPassXML_frame_array_xml_example =
     Element ''FrameArray''
       [(''O'', ''11''), (''C'', ''0''), (''I'', ''0B''), (''description'', '''')]
       [channels_xml_example, iflr_xml_example]"






definition logical_file_one_eflr_example :: Element where
  "logical_file_one_eflr_example =
     Element ''LogicalFile'' [(''has_log_pass'', ''False''), (''index'', ''0'')]
       [eflr_file_header_example]"





section \<open>Properties\<close>

subsection \<open>Integer literals\<close>








subsection \<open>\<^verbatim>\<open>xml_rle_read\<close>: the count checks\<close>

lemma map_of_set_attr: "map_of (attrib (set_attr e k v)) k = Some v"
  by (simp add: set_attr_def update_conv')

lemma attr_set_attr_same: "attr (set_attr e k v) k = Inr v"
  by (simp add: attr_def map_of_set_attr)

lemma attr_set_attr_other: "k' \<noteq> k \<Longrightarrow> attr (set_attr e k v) k' = attr e k'"
  by (simp add: attr_def set_attr_def update_conv')

lemma iterfind_set_attr: "iterfind (set_attr e k v) (t # ts) = iterfind e (t # ts)"
  by (simp add: set_attr_def)

text \<open>
  C3. For an element whose \<^verbatim>\<open>RLE\<close> children all parse (to the items \<open>ret\<close>) and whose
  \<^verbatim>\<open>count\<close> and \<^verbatim>\<open>rle_len\<close> attributes are integers, \<^verbatim>\<open>xml_rle_read\<close> raises its
  count-mismatch error exactly when the declared count differs from the sum of
  \<open>repeat + 1\<close> over the children or the declared length differs from the number of
  children, and returns the parsed items otherwise. Moreover, when a block is read
  successfully and its total is an integer, replacing only its \<^verbatim>\<open>count\<close> attribute by
  a text that does not denote the same integer makes the read fail.
\<close>

theorem xml_rle_read_count_check:
  assumes items: "err_map (rle_item_from_XML fo) (iterfind element [''RLE'']) = Inr ret"
    and count: "err_bind (attr element ''count'') py_int = Inr count"
    and rle_len: "err_bind (attr element ''rle_len'') py_int = Inr rle_len"
  shows "(is_count_mismatch (xml_rle_read fo element) \<longleftrightarrow>
            \<not> py_eq fo (PyInt count) (num_values fo ret) \<or> rle_len \<noteq> int (length ret))
       \<and> (py_eq fo (PyInt count) (num_values fo ret) \<and> rle_len = int (length ret)
            \<longrightarrow> xml_rle_read fo element = Inr ret)
       \<and> (\<forall>n s. xml_rle_read fo element = Inr ret \<and> num_values fo ret = PyInt n
                  \<and> py_int_base 10 s \<noteq> Some n
            \<longrightarrow> (\<exists>e. xml_rle_read fo (set_attr element ''count'' s) = Inl e))"
proof -
  obtain a where a: "attr element ''count'' = Inr a" "py_int a = Inr count"
    using count by (cases "attr element ''count''") auto
  obtain b where b: "attr element ''rle_len'' = Inr b" "py_int b = Inr rle_len"
    using rle_len by (cases "attr element ''rle_len''") auto
  have run: "xml_rle_read fo element =
      (if \<not> py_eq fo (PyInt count) (num_values fo ret) then Inl CountMismatch
       else if rle_len \<noteq> int (length ret) then Inl LenMismatch else Inr ret)"
    using items by (simp add: xml_rle_read_def a b)
  have p1: "is_count_mismatch (xml_rle_read fo element) \<longleftrightarrow>
           \<not> py_eq fo (PyInt count) (num_values fo ret) \<or> rle_len \<noteq> int (length ret)"
    by (simp add: run is_count_mismatch_def)
  have p2: "py_eq fo (PyInt count) (num_values fo ret) \<and> rle_len = int (length ret)
           \<longrightarrow> xml_rle_read fo element = Inr ret"
    by (simp add: run)
  have p3: "\<exists>e. xml_rle_read fo (set_attr element ''count'' s) = Inl e"
    if h: "xml_rle_read fo element = Inr ret \<and> num_values fo ret = PyInt n \<and> py_int_base 10 s \<noteq> Some n"
    for n s
  proof -
    have its: "err_map (rle_item_from_XML fo) (iterfind (set_attr element ''count'' s) [''RLE'']) = Inr ret"
      using items by (simp only: iterfind_set_attr)
    show ?thesis
    proof (cases "py_int_base 10 s")
      case None
      then show ?thesis using its
        by (simp add: xml_rle_read_def attr_set_attr_same py_int_def)
    next
      case (Some m)
      with h have "m \<noteq> n" by simp
      then show ?thesis using h Some its
        by (simp add: xml_rle_read_def attr_set_attr_same py_int_def)
    qed
  qed
  from p1 p2 p3 show ?thesis by blast
qed

lemma visible_records_example_items:
  "err_map (rle_item_from_XML no_float_ops) (iterfind visible_records_example [''RLE''])
     = Inr [\<lparr>datum = PyInt 80, stride = PyInt 8192, repeat = PyInt 6\<rparr>]"
  by (simp add: visible_records_example_def rle_item_from_XML_def attr_def
      rle_convert_datum_or_stride_def startswith_def py_int16_def py_int_def py_int_base_def
      split_sign_def skip_base_prefix_def parse_digits_def
      digit_in_base_def digit_value_def py_isspace_def)

theorem xml_rle_read_count_check_witness:
  "xml_rle_read no_float_ops visible_records_example
     = Inr [\<lparr>datum = PyInt 80, stride = PyInt 8192, repeat = PyInt 6\<rparr>]
   \<and> (\<exists>e. xml_rle_read no_float_ops (set_attr visible_records_example ''count'' ''8'') = Inl e)"
proof -
  let ?ret = "[\<lparr>datum = PyInt 80, stride = PyInt 8192, repeat = PyInt 6\<rparr>] :: unit RLE"
  have c: "err_bind (attr visible_records_example ''count'') py_int = Inr 7"
    by (simp add: visible_records_example_def attr_def py_int_def py_int_base_def
        split_sign_def skip_base_prefix_def parse_digits_def
        digit_in_base_def digit_value_def py_isspace_def)
  have l: "err_bind (attr visible_records_example ''rle_len'') py_int = Inr 1"
    by (simp add: visible_records_example_def attr_def py_int_def py_int_base_def
        split_sign_def skip_base_prefix_def parse_digits_def
        digit_in_base_def digit_value_def py_isspace_def)
  have nv: "num_values no_float_ops ?ret = PyInt 7"
    by (simp add: num_values_def)
  have s: "py_int_base 10 ''8'' \<noteq> Some 7"
    by (simp add: py_int_base_def split_sign_def skip_base_prefix_def parse_digits_def
        digit_in_base_def digit_value_def py_isspace_def)
  note t = xml_rle_read_count_check [OF visible_records_example_items c l]
  from t have ok: "xml_rle_read no_float_ops visible_records_example = Inr ?ret"
    by (simp add: nv)
  from t have "xml_rle_read no_float_ops visible_records_example = Inr ?ret
                 \<and> num_values no_float_ops ?ret = PyInt 7 \<and> py_int_base 10 ''8'' \<noteq> Some 7
               \<longrightarrow> (\<exists>e. xml_rle_read no_float_ops (set_attr visible_records_example ''count'' ''8'') = Inl e)"
    by blast
  with ok nv s show ?thesis by blast
qed

lemmas parse_simps = py_int_def py_int16_def py_int_base_def split_sign_def skip_base_prefix_def
  parse_digits_def digit_in_base_def digit_value_def py_isspace_def startswith_def

lemmas format_simps = py_str_int_def py_hex_int_def nat_str.simps digit_char_def

subsection \<open>\<^verbatim>\<open>read_logical_file_from_xml\<close>: the order of the first two EFLRs\<close>

text \<open>
  C6. When the \<^verbatim>\<open>LogicalFile\<close> node has fewer than two \<^verbatim>\<open>EFLR\<close> children, or the
  \<^verbatim>\<open>set_type\<close> of the first is not \<^verbatim>\<open>FILE-HEADER\<close>, or that of the second is not
  \<^verbatim>\<open>ORIGIN\<close>, \<^verbatim>\<open>read_logical_file_from_xml\<close> raises, and it does so before the binary
  file is read: the error is the same whatever the file holds, and the log of the
  positions read is returned as it was given.
\<close>

theorem read_logical_file_checks_first:
  assumes "length (iterfind logical_file_node [''EFLR'']) < 2
           \<or> attr (iterfind logical_file_node [''EFLR''] ! 0) ''set_type'' \<noteq> Inr ''FILE-HEADER''
           \<or> attr (iterfind logical_file_node [''EFLR''] ! 1) ''set_type'' \<noteq> Inr ''ORIGIN''"
  shows "\<exists>e. \<forall>rp66v1_file. read_logical_file_from_xml fo ops lops logical_file_node rp66v1_file log = (Inl e, log)"
proof (cases "iterfind logical_file_node [''EFLR'']")
  case Nil
  then show ?thesis
    by (cases "tag logical_file_node = ''LogicalFile''")
       (auto simp add: read_logical_file_from_xml_def simp del: iterfind.simps)
next
  case (Cons e0 es)
  note c0 = Cons
  show ?thesis
  proof (cases es)
    case Nil
    with c0 show ?thesis
      by (cases "tag logical_file_node = ''LogicalFile''")
         (auto simp add: read_logical_file_from_xml_def simp del: iterfind.simps)
  next
    case (Cons e1 rest)
    with c0 have l: "iterfind logical_file_node [''EFLR''] = e0 # e1 # rest" by simp
    from assms have bad: "attr e0 ''set_type'' \<noteq> Inr ''FILE-HEADER'' \<or> attr e1 ''set_type'' \<noteq> Inr ''ORIGIN''"
      by (simp only: l) simp
    show ?thesis
    proof (cases "tag logical_file_node = ''LogicalFile''")
      case False
      then show ?thesis by (simp add: read_logical_file_from_xml_def del: iterfind.simps)
    next
      case True
      show ?thesis
      proof (cases "attr e0 ''set_type''")
        case (Inl x)
        then show ?thesis using True l
          by (simp add: read_logical_file_from_xml_def del: iterfind.simps)
      next
        case t0: (Inr t0)
        show ?thesis
        proof (cases "t0 = ''FILE-HEADER''")
          case False
          then show ?thesis using True l t0
            by (simp add: read_logical_file_from_xml_def del: iterfind.simps)
        next
          case h: True
          show ?thesis
          proof (cases "attr e1 ''set_type''")
            case (Inl x)
            then show ?thesis using True l t0 h
              by (simp add: read_logical_file_from_xml_def del: iterfind.simps)
          next
            case (Inr t1)
            with bad t0 h have "t1 \<noteq> ''ORIGIN''" by simp
            then show ?thesis using True l t0 h Inr
              by (simp add: read_logical_file_from_xml_def del: iterfind.simps)
          qed
        qed
      qed
    qed
  qed
qed

theorem read_logical_file_checks_first_witness:
  "(\<exists>e. \<forall>rp66v1_file :: (int \<times> int) file_read.
     read_logical_file_from_xml no_float_ops (IFLRData_ops :: (unit, unit IFLRData) iflr_ops)
       simple_logical_file_ops logical_file_misordered_example rp66v1_file [] = (Inl e, []))
   \<and> (\<exists>e. \<forall>rp66v1_file :: (int \<times> int) file_read.
     read_logical_file_from_xml no_float_ops (IFLRData_ops :: (unit, unit IFLRData) iflr_ops)
       simple_logical_file_ops logical_file_one_eflr_example rp66v1_file [] = (Inl e, []))"
proof -
  have a: "attr (iterfind logical_file_misordered_example [''EFLR''] ! 0) ''set_type'' \<noteq> Inr ''FILE-HEADER''"
    by (simp add: logical_file_misordered_example_def eflr_origin_example_def
        eflr_file_header_example_def attr_def)
  have b: "length (iterfind logical_file_one_eflr_example [''EFLR'']) < 2"
    by (simp add: logical_file_one_eflr_example_def eflr_file_header_example_def)
  from a b show ?thesis
    using read_logical_file_checks_first [of logical_file_misordered_example]
      read_logical_file_checks_first [of logical_file_one_eflr_example]
    by blast
qed

subsection \<open>\<^verbatim>\<open>read_storage_unit_label_from_xml\<close>\<close>






subsection \<open>\<^verbatim>\<open>read_logical_index_from_xml\<close>: the declared number of Logical Files\<close>

lemma err_bind_Inl_iff:
  "err_bind m f = Inl x \<longleftrightarrow> m = Inl x \<or> (\<exists>v. m = Inr v \<and> f v = Inl x)"
  by (cases m) auto

lemma err_map_Inl:
  "err_map f xs = Inl x \<Longrightarrow> \<exists>y. f y = Inl x"
  by (induction xs) (auto simp add: err_bind_Inl_iff)

lemma err_map_length:
  "err_map f xs = Inr ys \<Longrightarrow> length ys = length xs"
proof (induction xs arbitrary: ys)
  case Nil
  then show ?case by simp
next
  case (Cons x xs)
  then show ?case
    by (cases "f x"; cases "err_map f xs") auto
qed

lemma rle_item_from_XML_error:
  "rle_item_from_XML fo e = Inl x \<Longrightarrow> x = ValueError \<or> (\<exists>k. x = KeyError k)"
  by (auto simp add: rle_item_from_XML_def err_bind_Inl_iff attr_def rle_convert_datum_or_stride_def
      py_int_def py_int16_def split: option.splits if_splits)

lemma xml_rle_read_error:
  "xml_rle_read fo e = Inl x \<Longrightarrow>
     x = ValueError \<or> (\<exists>k. x = KeyError k) \<or> x = CountMismatch \<or> x = LenMismatch"
  by (auto simp add: xml_rle_read_def err_bind_Inl_iff attr_def py_int_def
      simp del: iterfind.simps split: option.splits if_splits
      dest!: err_map_Inl rle_item_from_XML_error)

lemma rle_values_error: "snd (rle_values fo rle) = Some x \<Longrightarrow> x = TypeError"
  by (induction rle) (auto simp add: item_values_def split: pynum.splits prod.splits option.splits)

lemma list_of_gen_rle_values_error:
  "list_of_gen (rle_values fo rle) = Inl x \<Longrightarrow> x = TypeError"
  using rle_values_error [of fo rle x]
  by (simp add: list_of_gen_def split: option.splits)

lemma logical_index_close_error:
  "logical_index_close fo root p sul lfs \<noteq> Inl LogicalFileCountMismatch"
proof
  assume eq: "logical_index_close fo root p sul lfs = Inl LogicalFileCountMismatch"
  then consider
      (a) "xml_single_element root [''VisibleRecords''] = Inl LogicalFileCountMismatch"
    | (b) e where "xml_rle_read fo e = Inl LogicalFileCountMismatch"
    | (c) v where "list_of_gen (rle_values fo v) = Inl LogicalFileCountMismatch"
    by (auto simp add: logical_index_close_def err_bind_Inl_iff simp del: iterfind.simps)
  then show False
  proof cases
    case a
    then show False
      by (simp add: xml_single_element_def LogicalFileCountMismatch_def
          del: iterfind.simps split: list.splits)
  next
    case b
    then show False
      by (auto simp add: LogicalFileCountMismatch_def CountMismatch_def LenMismatch_def
          dest!: xml_rle_read_error)
  next
    case c
    then show False
      by (auto simp add: LogicalFileCountMismatch_def dest!: list_of_gen_rle_values_error)
  qed
qed

lemma read_logical_files_length:
  "read_logical_files fo ops lops f nodes log = (Inr lfs, log') \<Longrightarrow> length lfs = length nodes"
proof (induction nodes arbitrary: lfs log log')
  case Nil
  then show ?case by simp
next
  case (Cons n nodes)
  then show ?case
    by (auto split: prod.splits sum.splits)
qed

text \<open>
  C10. Once the document has been opened and every \<^verbatim>\<open>LogicalFile\<close> child has been read,
  \<^verbatim>\<open>read_logical_index_from_xml\<close> raises its count error exactly when the number of
  \<^verbatim>\<open>LogicalFile\<close> children differs from the \<^verbatim>\<open>count\<close> attribute of \<^verbatim>\<open>LogicalFiles\<close>; when
  they agree it goes on to the Visible Record positions.
\<close>

theorem logical_file_count_check:
  assumes opened: "logical_index_open os index_path archive_root =
                     Inr (root, original_file_path, sul, logical_files_node, logical_file_count, rp66v1file)"
    and read: "read_logical_files fo ops lops rp66v1file
                 (iterfind logical_files_node [''LogicalFile'']) [] = (Inr lfs, log)"
  shows "(read_logical_index_from_xml fo ops lops os index_path archive_root = Inl LogicalFileCountMismatch
            \<longleftrightarrow> int (length (iterfind logical_files_node [''LogicalFile''])) \<noteq> logical_file_count)
       \<and> (int (length (iterfind logical_files_node [''LogicalFile''])) = logical_file_count
            \<longrightarrow> read_logical_index_from_xml fo ops lops os index_path archive_root =
                  logical_index_close fo root original_file_path sul lfs)"
proof -
  have len: "length lfs = length (iterfind logical_files_node [''LogicalFile''])"
    using read by (rule read_logical_files_length)
  have run: "read_logical_index_from_xml fo ops lops os index_path archive_root =
      (if int (length lfs) \<noteq> logical_file_count then Inl LogicalFileCountMismatch
       else logical_index_close fo root original_file_path sul lfs)"
    using read by (simp add: read_logical_index_from_xml_def opened del: iterfind.simps)
  show ?thesis
    using logical_index_close_error [of fo root original_file_path sul lfs]
    by (simp add: run len del: iterfind.simps)
qed

lemma index_example_opened:
  "logical_index_open simple_index_read_ops ''index.xml'' ''archive'' =
     Inr (index_example, ''archive/Y4_GR_RES_RM.dlis'', (1, ''V1.00'', 8192, ''Default Storage Set''),
          Element ''LogicalFiles'' [(''count'', ''1'')] [logical_file_example], 1, simple_file_read)"
  by (simp add: logical_index_open_def simple_index_read_ops_def index_example_def attr_def
      XML_SCHEMA_VERSION_def read_storage_unit_label_from_xml_def xml_single_element_def
      encode_ascii_def is_ascii_def parse_simps simple_storage_unit_label_def
      visible_records_example_def)

lemma logical_file_example_read:
  "read_logical_file_from_xml no_float_ops (IFLRData_ops :: (unit, unit IFLRData) iflr_ops)
     simple_logical_file_ops logical_file_example simple_file_read [] =
     (Inr ([(80, 84), (80, 208)], []), [(80, 84), (80, 208)])"
  by (simp add: read_logical_file_from_xml_def logical_file_example_def
      eflr_file_header_example_def eflr_origin_example_def attr_def read_eflr_def
      xml_integer_attribute_read_def parse_simps simple_file_read_def simple_logical_file_ops_def)

lemma index_miscounted_example_opened:
  "logical_index_open simple_index_read_ops ''miscounted.xml'' ''archive'' =
     Inr (index_miscounted_example, ''archive/Y4_GR_RES_RM.dlis'',
          (1, ''V1.00'', 8192, ''Default Storage Set''),
          Element ''LogicalFiles'' [(''count'', ''2'')] [logical_file_example], 2, simple_file_read)"
  by (simp add: logical_index_open_def simple_index_read_ops_def index_miscounted_example_def
      attr_def XML_SCHEMA_VERSION_def read_storage_unit_label_from_xml_def xml_single_element_def
      encode_ascii_def is_ascii_def parse_simps simple_storage_unit_label_def
      visible_records_example_def)


theorem logical_file_count_check_witness:
  "read_logical_index_from_xml no_float_ops (IFLRData_ops :: (unit, unit IFLRData) iflr_ops)
     simple_logical_file_ops simple_index_read_ops ''index.xml'' ''archive'' =
   Inr \<lparr>li_id = ''archive/Y4_GR_RES_RM.dlis'',
        storage_unit_label = (1, ''V1.00'', 8192, ''Default Storage Set''),
        logical_files = [([(80, 84), (80, 208)], [])],
        visible_record_positions =
          [PyInt 80, PyInt 8272, PyInt 16464, PyInt 24656, PyInt 32848, PyInt 41040, PyInt 49232]\<rparr>
   \<and> read_logical_index_from_xml no_float_ops (IFLRData_ops :: (unit, unit IFLRData) iflr_ops)
       simple_logical_file_ops simple_index_read_ops ''miscounted.xml'' ''archive'' =
     Inl LogicalFileCountMismatch"
proof -
  have r: "read_logical_files no_float_ops (IFLRData_ops :: (unit, unit IFLRData) iflr_ops)
             simple_logical_file_ops simple_file_read
             (iterfind (Element ''LogicalFiles'' [(''count'', ''1'')] [logical_file_example])
                [''LogicalFile'']) []
           = (Inr [([(80, 84), (80, 208)], [])], [(80, 84), (80, 208)])"
    by (simp add: logical_file_example_read)
       (simp add: logical_file_example_def)
  have r2: "read_logical_files no_float_ops (IFLRData_ops :: (unit, unit IFLRData) iflr_ops)
             simple_logical_file_ops simple_file_read
             (iterfind (Element ''LogicalFiles'' [(''count'', ''2'')] [logical_file_example])
                [''LogicalFile'']) []
           = (Inr [([(80, 84), (80, 208)], [])], [(80, 84), (80, 208)])"
    by (simp add: logical_file_example_read)
       (simp add: logical_file_example_def)
  have c: "logical_index_close no_float_ops index_example ''archive/Y4_GR_RES_RM.dlis''
             (1, ''V1.00'', 8192, ''Default Storage Set'') [([(80::int, 84::int), (80, 208)], [])]
           = Inr \<lparr>li_id = ''archive/Y4_GR_RES_RM.dlis'',
        storage_unit_label = (1, ''V1.00'', 8192, ''Default Storage Set''),
        logical_files = [([(80, 84), (80, 208)], [])],
        visible_record_positions =
          [PyInt 80, PyInt 8272, PyInt 16464, PyInt 24656, PyInt 32848, PyInt 41040, PyInt 49232]\<rparr>"
    by (simp add: logical_index_close_def index_example_def xml_single_element_def
        visible_records_example_def xml_rle_read_def rle_item_from_XML_def attr_def
        rle_convert_datum_or_stride_def parse_simps num_values_def list_of_gen_def
        item_values_def eval_nat_numeral logical_file_example_def)
  have good: "read_logical_index_from_xml no_float_ops (IFLRData_ops :: (unit, unit IFLRData) iflr_ops)
     simple_logical_file_ops simple_index_read_ops ''index.xml'' ''archive'' =
   Inr \<lparr>li_id = ''archive/Y4_GR_RES_RM.dlis'',
        storage_unit_label = (1, ''V1.00'', 8192, ''Default Storage Set''),
        logical_files = [([(80, 84), (80, 208)], [])],
        visible_record_positions =
          [PyInt 80, PyInt 8272, PyInt 16464, PyInt 24656, PyInt 32848, PyInt 41040, PyInt 49232]\<rparr>"
    using logical_file_count_check [OF index_example_opened r]
    by (simp add: c logical_file_example_def)
  have bad: "read_logical_index_from_xml no_float_ops (IFLRData_ops :: (unit, unit IFLRData) iflr_ops)
       simple_logical_file_ops simple_index_read_ops ''miscounted.xml'' ''archive'' =
     Inl LogicalFileCountMismatch"
    using logical_file_count_check [OF index_miscounted_example_opened r2]
    by (simp add: logical_file_example_def)
  from good bad show ?thesis by blast
qed

subsection \<open>Frame arrays without channels\<close>

lemma iflr_xml_example_read:
  "iterfind node [''IFLR''] = [iflr_xml_example] \<Longrightarrow>
   iflr_data_from_xml no_float_ops IFLRData_ops node =
     Inr ([\<lparr>frame_number = PyInt 5292, lrsh_position = PyInt 1, x_axis = PyInt 0\<rparr>,
           \<lparr>frame_number = PyInt 5340, lrsh_position = PyInt 2, x_axis = PyInt 75197\<rparr>], None)"
  by (simp add: iflr_data_from_xml_def xml_single_element_def del: iterfind.simps)
     (simp add: iflr_xml_example_def xml_single_element_def xml_rle_read_def
      rle_item_from_XML_def attr_def rle_convert_datum_or_stride_def parse_simps num_values_def
      set_of_four_is_single_def item_values_def gen_map_def IFLRData_ops_def numeral_2_eq_2)

text \<open>
  C9. \<^verbatim>\<open>frame_array_to_XML\<close> reads \<^verbatim>\<open>channels[0]\<close> for the x-axis attributes: on a frame
  array that has no channel it never returns an element, and it raises \<^verbatim>\<open>IndexError\<close>
  at that access whenever the identifier and the description, decoded before it, are
  ASCII. \<^verbatim>\<open>frame_array_from_XML\<close> on the other hand accepts a \<^verbatim>\<open>FrameArray\<close> node that has
  no \<^verbatim>\<open>Channel\<close> child, and returns a frame array without channels.
\<close>

theorem frame_array_to_XML_needs_a_channel:
  "(channels frame_array = [] \<longrightarrow>
      (\<exists>e. frame_array_to_XML fo ops frame_array iflr_data = Inl e)
      \<and> (is_ascii (on_I (fa_ident frame_array)) \<and> is_ascii (description frame_array)
           \<longrightarrow> frame_array_to_XML fo ops frame_array iflr_data = Inl IndexError))
   \<and> (tag node = ''FrameArray'' \<and> xml_object_name node = Inr n
        \<and> err_bind (attr node ''description'') encode_ascii = Inr d
        \<and> iterfind node [''Channels'', ''Channel''] = []
        \<and> iflr_data_from_xml fo ops node = Inr g
      \<longrightarrow> frame_array_from_XML fo ops node = Inr (\<lparr>fa_ident = n, description = d, channels = []\<rparr>, g))"
proof (intro conjI impI)
  assume c: "channels frame_array = []"
  show "\<exists>e. frame_array_to_XML fo ops frame_array iflr_data = Inl e"
    using c by (cases "decode_ascii (on_I (fa_ident frame_array))";
                cases "decode_ascii (description frame_array)")
               (simp_all add: frame_array_to_XML_def first_channel_def)
next
  assume c: "channels frame_array = []"
    and a: "is_ascii (on_I (fa_ident frame_array)) \<and> is_ascii (description frame_array)"
  show "frame_array_to_XML fo ops frame_array iflr_data = Inl IndexError"
    using c a by (simp add: frame_array_to_XML_def first_channel_def decode_ascii_def)
next
  assume h: "tag node = ''FrameArray'' \<and> xml_object_name node = Inr n
        \<and> err_bind (attr node ''description'') encode_ascii = Inr d
        \<and> iterfind node [''Channels'', ''Channel''] = []
        \<and> iflr_data_from_xml fo ops node = Inr g"
  then obtain a where a: "attr node ''description'' = Inr a" "encode_ascii a = Inr d"
    by (cases "attr node ''description''") auto
  show "frame_array_from_XML fo ops node = Inr (\<lparr>fa_ident = n, description = d, channels = []\<rparr>, g)"
    using h a by (simp add: frame_array_from_XML_def del: iterfind.simps)
qed

theorem frame_array_to_XML_needs_a_channel_witness:
  "frame_array_to_XML no_float_ops IFLRData_ops (frame_array_example\<lparr>channels := []\<rparr>)
     iflr_data_example = Inl IndexError
   \<and> frame_array_from_XML no_float_ops IFLRData_ops frame_array_no_channel_xml_example =
       Inr (\<lparr>fa_ident = \<lparr>on_O = OStr ''11'', on_C = OStr ''0'', on_I = ''0B''\<rparr>,
             description = '''', channels = []\<rparr>,
            [\<lparr>frame_number = PyInt 5292, lrsh_position = PyInt 1, x_axis = PyInt 0\<rparr>,
             \<lparr>frame_number = PyInt 5340, lrsh_position = PyInt 2, x_axis = PyInt 75197\<rparr>], None)"
proof -
  let ?n = "\<lparr>on_O = OStr ''11'', on_C = OStr ''0'', on_I = ''0B''\<rparr>"
  let ?g = "([\<lparr>frame_number = PyInt 5292, lrsh_position = PyInt 1, x_axis = PyInt 0\<rparr>,
             \<lparr>frame_number = PyInt 5340, lrsh_position = PyInt 2, x_axis = PyInt 75197 :: unit pynum\<rparr>],
            None :: error option)"
  have c: "channels (frame_array_example\<lparr>channels := []\<rparr>) = []" by simp
  have a: "is_ascii (on_I (fa_ident (frame_array_example\<lparr>channels := []\<rparr>)))
           \<and> is_ascii (description (frame_array_example\<lparr>channels := []\<rparr>))"
    by (simp add: frame_array_example_def is_ascii_def)
  have t: "tag frame_array_no_channel_xml_example = ''FrameArray''"
    by (simp add: frame_array_no_channel_xml_example_def)
  have n: "xml_object_name frame_array_no_channel_xml_example = Inr ?n"
    by (simp add: frame_array_no_channel_xml_example_def xml_object_name_def attr_def
        encode_ascii_def is_ascii_def)
  have d: "err_bind (attr frame_array_no_channel_xml_example ''description'') encode_ascii = Inr ''''"
    by (simp add: frame_array_no_channel_xml_example_def attr_def encode_ascii_def is_ascii_def)
  have z: "iterfind frame_array_no_channel_xml_example [''Channels'', ''Channel''] = []"
    by (simp add: frame_array_no_channel_xml_example_def iflr_xml_example_def)
  have i: "iflr_data_from_xml no_float_ops IFLRData_ops frame_array_no_channel_xml_example = Inr ?g"
    by (rule iflr_xml_example_read)
       (simp add: frame_array_no_channel_xml_example_def iflr_xml_example_def)
  note inst = frame_array_to_XML_needs_a_channel
    [of "frame_array_example\<lparr>channels := []\<rparr>" no_float_ops IFLRData_ops iflr_data_example
        frame_array_no_channel_xml_example ?n "''''" ?g]
  from inst c a have w: "frame_array_to_XML no_float_ops IFLRData_ops
      (frame_array_example\<lparr>channels := []\<rparr>) iflr_data_example = Inl IndexError"
    by blast
  from inst t n d z i have "frame_array_from_XML no_float_ops IFLRData_ops
      frame_array_no_channel_xml_example = Inr (\<lparr>fa_ident = ?n, description = '''', channels = []\<rparr>, ?g)"
    by blast
  with w show ?thesis by simp
qed

subsection \<open>Writing a frame array and reading it back\<close>

lemma channels_example_written:
  "channels_to_XML frame_array_example = Inr channels_xml_example"
  by (simp add: channels_to_XML_def frame_array_example_def frame_channel_to_XML_def
      decode_ascii_def is_ascii_def channel_count_def channels_xml_example_def format_simps)

lemma iflr_example_written:
  "iflr_to_XML no_float_ops IFLRData_ops iflr_data_example = Inr iflr_xml_example"
  by (simp add: iflr_to_XML_def iflr_data_example_def IFLRData_ops_def xml_rle_write_def
      rle_item_to_XML_def num_values_def iflr_xml_example_def format_simps)

lemma channels_example_read:
  "iterfind node [''Channels'', ''Channel''] = children channels_xml_example \<Longrightarrow>
   err_map frame_channel_from_XML (iterfind node [''Channels'', ''Channel'']) =
     Inr [\<lparr>ident = IdentBytes ''DEPT'', long_name = ''MWD Tool Measurement Depth'',
           rep_code = 2, units = ''0.1 in'', dimensions = [1]\<rparr>]"
  by (simp del: iterfind.simps)
     (simp add: channels_xml_example_def frame_channel_from_XML_def attr_def encode_ascii_def
      is_ascii_def parse_simps)

text \<open>
  C1. \<^verbatim>\<open>core/LogPassXML.py\<close>: the side-table \<open>iflr_data_example\<close> has the frame
  numbers 1, 2 at the positions 0x14ac, 0x14dc. \<^verbatim>\<open>frame_array_to_XML\<close> writes the frame
  numbers to \<^verbatim>\<open>FrameNumbers\<close> and the positions to \<^verbatim>\<open>LRSH\<close>; \<^verbatim>\<open>frame_array_from_XML\<close>
  reads the document back into entries whose \<^verbatim>\<open>frame_number\<close> is the value of the
  \<^verbatim>\<open>LRSH\<close> block and whose \<^verbatim>\<open>lrsh_position\<close> is the value of the \<^verbatim>\<open>FrameNumbers\<close> block:
  \<^verbatim>\<open>IFLRData(*v)\<close> fills the fields in the order of \<^verbatim>\<open>zip(lrsh, frames, xaxis)\<close>.
\<close>

theorem LogPassXML_round_trip_swaps_fields:
  "LogPassXML_frame_array_to_XML no_float_ops frame_array_example iflr_data_example
     = Inr LogPassXML_frame_array_xml_example
   \<and> map_sum id snd (LogPassXML_frame_array_from_XML no_float_ops LogPassXML_frame_array_xml_example)
     = Inr ([\<lparr>frame_number = PyInt 5292, lrsh_position = PyInt 1, x_axis = PyInt 0\<rparr>,
             \<lparr>frame_number = PyInt 5340, lrsh_position = PyInt 2, x_axis = PyInt 75197\<rparr>], None)
   \<and> iflr_data_example
     = [\<lparr>frame_number = PyInt 1, lrsh_position = PyInt 5292, x_axis = PyInt 0\<rparr>,
        \<lparr>frame_number = PyInt 2, lrsh_position = PyInt 5340, x_axis = PyInt 75197\<rparr>]"
proof -
  have w: "LogPassXML_frame_array_to_XML no_float_ops frame_array_example iflr_data_example
             = Inr LogPassXML_frame_array_xml_example"
    by (simp add: LogPassXML_frame_array_to_XML_def channels_example_written iflr_example_written
        LogPassXML_frame_array_xml_example_def)
       (simp add: frame_array_example_def decode_ascii_def is_ascii_def format_simps)
  have i: "iflr_data_from_xml no_float_ops IFLRData_ops LogPassXML_frame_array_xml_example =
     Inr ([\<lparr>frame_number = PyInt 5292, lrsh_position = PyInt 1, x_axis = PyInt 0\<rparr>,
           \<lparr>frame_number = PyInt 5340, lrsh_position = PyInt 2, x_axis = PyInt 75197\<rparr>], None)"
    by (rule iflr_xml_example_read)
       (simp add: LogPassXML_frame_array_xml_example_def iflr_xml_example_def
        channels_xml_example_def)
  have c: "iterfind LogPassXML_frame_array_xml_example [''Channels'', ''Channel'']
             = children channels_xml_example"
    by (simp add: LogPassXML_frame_array_xml_example_def iflr_xml_example_def
        channels_xml_example_def)
  have r: "map_sum id snd
             (LogPassXML_frame_array_from_XML no_float_ops LogPassXML_frame_array_xml_example)
     = Inr ([\<lparr>frame_number = PyInt 5292, lrsh_position = PyInt 1, x_axis = PyInt 0\<rparr>,
             \<lparr>frame_number = PyInt 5340, lrsh_position = PyInt 2, x_axis = PyInt 75197\<rparr>], None)"
    by (simp add: LogPassXML_frame_array_from_XML_def frame_array_from_XML_def i
        channels_example_read [OF c] del: iterfind.simps)
       (simp add: LogPassXML_frame_array_xml_example_def xml_object_name_def attr_def
        encode_ascii_def is_ascii_def)
  from w r show ?thesis by (simp add: iflr_data_example_def)
qed

text \<open>
  C2. \<^verbatim>\<open>IndexXML.py\<close>: \<open>frame_array_example\<close> has the identity (11, 0, 0B) and one
  channel of identity (11, 0, DEPT). Read back from the document \<^verbatim>\<open>frame_array_to_XML\<close>
  writes, the frame array has the texts \<^verbatim>\<open>'11'\<close> and \<^verbatim>\<open>'0'\<close> for O and C, and its channel
  has the bare byte string \<^verbatim>\<open>DEPT\<close> for an identity: \<^verbatim>\<open>xml_object_name\<close> passes the
  attribute texts on, and \<^verbatim>\<open>frame_channel_from_XML\<close> reads the attribute I alone.
\<close>

theorem frame_array_round_trip_changes_identity:
  "frame_array_to_XML no_float_ops IFLRData_ops frame_array_example iflr_data_example
     = Inr frame_array_xml_example
   \<and> map_sum id fst (frame_array_from_XML no_float_ops IFLRData_ops frame_array_xml_example)
     = Inr \<lparr>fa_ident = \<lparr>on_O = OStr ''11'', on_C = OStr ''0'', on_I = ''0B''\<rparr>,
            description = '''',
            channels = [\<lparr>ident = IdentBytes ''DEPT'', long_name = ''MWD Tool Measurement Depth'',
                         rep_code = 2, units = ''0.1 in'', dimensions = [1]\<rparr>]\<rparr>
   \<and> frame_array_example
     = \<lparr>fa_ident = \<lparr>on_O = OInt 11, on_C = OInt 0, on_I = ''0B''\<rparr>,
        description = '''',
        channels = [\<lparr>ident = IdentObjectName \<lparr>on_O = OInt 11, on_C = OInt 0, on_I = ''DEPT''\<rparr>,
                     long_name = ''MWD Tool Measurement Depth'',
                     rep_code = 2, units = ''0.1 in'', dimensions = [1]\<rparr>]\<rparr>"
proof -
  have w: "frame_array_to_XML no_float_ops IFLRData_ops frame_array_example iflr_data_example
             = Inr frame_array_xml_example"
    by (simp add: frame_array_to_XML_def channels_example_written iflr_example_written
        frame_array_xml_example_def)
       (simp add: frame_array_example_def decode_ascii_def is_ascii_def format_simps
        first_channel_def)
  have i: "iflr_data_from_xml no_float_ops IFLRData_ops frame_array_xml_example =
     Inr ([\<lparr>frame_number = PyInt 5292, lrsh_position = PyInt 1, x_axis = PyInt 0\<rparr>,
           \<lparr>frame_number = PyInt 5340, lrsh_position = PyInt 2, x_axis = PyInt 75197\<rparr>], None)"
    by (rule iflr_xml_example_read)
       (simp add: frame_array_xml_example_def iflr_xml_example_def channels_xml_example_def)
  have c: "iterfind frame_array_xml_example [''Channels'', ''Channel'']
             = children channels_xml_example"
    by (simp add: frame_array_xml_example_def iflr_xml_example_def channels_xml_example_def)
  have r: "map_sum id fst (frame_array_from_XML no_float_ops IFLRData_ops frame_array_xml_example)
     = Inr \<lparr>fa_ident = \<lparr>on_O = OStr ''11'', on_C = OStr ''0'', on_I = ''0B''\<rparr>,
            description = '''',
            channels = [\<lparr>ident = IdentBytes ''DEPT'', long_name = ''MWD Tool Measurement Depth'',
                         rep_code = 2, units = ''0.1 in'', dimensions = [1]\<rparr>]\<rparr>"
    by (simp add: frame_array_from_XML_def i channels_example_read [OF c] del: iterfind.simps)
       (simp add: frame_array_xml_example_def xml_object_name_def attr_def
        encode_ascii_def is_ascii_def)
  from w r show ?thesis by (simp add: frame_array_example_def)
qed

subsection \<open>Writing an RLE and reading it back\<close>























subsection \<open>\<^verbatim>\<open>iflr_data_from_xml\<close>: the four counts\<close>










subsection \<open>\<^verbatim>\<open>index_a_single_file\<close> and \<^verbatim>\<open>index_dir_or_file\<close>\<close>







end
